theory Spec2Isabelle
  imports Complex_Main
begin

section \<open>Python values\<close>

text \<open>
  A Python \<open>str\<close> is a sequence of Unicode code points, so it is a list of naturals
  here and \<open>take n\<close> counts what \<open>s[:n]\<close> counts. \<open>py\<close> turns an ASCII
  literal of the source into such a sequence. \<open>bytes\<close> are lists of naturals as well.
\<close>

type_synonym pystr = "nat list"
type_synonym pybytes = "nat list"

definition py :: "string \<Rightarrow> pystr" where
  "py s = map of_char s"

definition quote :: "pystr \<Rightarrow> pystr" where
  "quote s = 39 # s @ [39]"

text \<open>
  The values \<open>json.loads\<close> produces (and the ones the handlers build): the keys of a
  dict are always \<open>str\<close>. A dict is an association list read with \<open>map_of\<close>.
\<close>

datatype pyval =
    PNone
  | PBool bool
  | PInt int
  | PFloat real
  | PStr pystr
  | PList "pyval list"
  | PDict "(pystr \<times> pyval) list"

text \<open>Exceptions carry what \<open>str(e)\<close> returns.\<close>

datatype exn =
    AttributeError pystr
  | TypeError pystr
  | IndexError pystr
  | KeyError pystr
  | OtherError pystr

primrec str_exn :: "exn \<Rightarrow> pystr" where
  "str_exn (AttributeError m) = m"
| "str_exn (TypeError m) = m"
| "str_exn (IndexError m) = m"
| "str_exn (KeyError m) = m"
| "str_exn (OtherError m) = m"

text \<open>Truth value testing: what \<open>not x\<close> and \<open>if x\<close> look at.\<close>

fun truthy :: "pyval \<Rightarrow> bool" where
  "truthy PNone = False"
| "truthy (PBool b) = b"
| "truthy (PInt i) = (i \<noteq> 0)"
| "truthy (PFloat r) = (r \<noteq> 0)"
| "truthy (PStr s) = (s \<noteq> [])"
| "truthy (PList xs) = (xs \<noteq> [])"
| "truthy (PDict kvs) = (kvs \<noteq> [])"

fun type_name :: "pyval \<Rightarrow> pystr" where
  "type_name PNone = py ''NoneType''"
| "type_name (PBool b) = py ''bool''"
| "type_name (PInt i) = py ''int''"
| "type_name (PFloat r) = py ''float''"
| "type_name (PStr s) = py ''str''"
| "type_name (PList xs) = py ''list''"
| "type_name (PDict kvs) = py ''dict''"

text \<open>\<open>d.get(k, dflt)\<close>: only a dict has the method.\<close>

definition dict_get :: "pyval \<Rightarrow> pystr \<Rightarrow> pyval \<Rightarrow> exn + pyval" where
  "dict_get d k dflt =
     (case d of
        PDict kvs \<Rightarrow> Inr (case map_of kvs k of None \<Rightarrow> dflt | Some v \<Rightarrow> v)
      | _ \<Rightarrow> Inl (AttributeError
                 (quote (type_name d) @ py '' object has no attribute '' @ quote (py ''get''))))"

definition not_subscriptable :: "pyval \<Rightarrow> exn" where
  "not_subscriptable x = TypeError (quote (type_name x) @ py '' object is not subscriptable'')"

text \<open>
  \<open>x[:n]\<close>. A \<open>str\<close> and a \<open>list\<close> are sliced; a dict raises (a \<open>TypeError\<close>
  up to Python 3.11, a \<open>KeyError\<close> from 3.12 on: an \<open>Exception\<close> either way);
  nothing else is subscriptable.
\<close>

definition slice_to :: "pyval \<Rightarrow> nat \<Rightarrow> exn + pyval" where
  "slice_to x n =
     (case x of
        PStr s \<Rightarrow> Inr (PStr (take n s))
      | PList xs \<Rightarrow> Inr (PList (take n xs))
      | PDict kvs \<Rightarrow> Inl (TypeError (py ''unhashable type: '' @ quote (py ''slice'')))
      | _ \<Rightarrow> Inl (not_subscriptable x))"

text \<open>\<open>x[0]\<close>. The integer 0 is never a key of a dict that came from JSON.\<close>

definition index0 :: "pyval \<Rightarrow> exn + pyval" where
  "index0 x =
     (case x of
        PList xs \<Rightarrow>
          (case xs of [] \<Rightarrow> Inl (IndexError (py ''list index out of range''))
                    | a # _ \<Rightarrow> Inr a)
      | PStr s \<Rightarrow>
          (case s of [] \<Rightarrow> Inl (IndexError (py ''string index out of range''))
                   | c # _ \<Rightarrow> Inr (PStr [c]))
      | PDict kvs \<Rightarrow> Inl (KeyError (py ''0''))
      | _ \<Rightarrow> Inl (not_subscriptable x))"

text \<open>\<open>str(n)\<close> of an integer, as the f-strings of the error messages use it.\<close>

fun str_nat :: "nat \<Rightarrow> pystr" where
  "str_nat n = (if n < 10 then [48 + n] else str_nat (n div 10) @ [48 + n mod 10])"

declare str_nat.simps [simp del]

definition str_int :: "int \<Rightarrow> pystr" where
  "str_int i = (if i < 0 then 45 # str_nat (nat (- i)) else str_nat (nat i))"

section \<open>Loading the credentials\<close>

text \<open>
  What the process sees outside itself: the environment variables and the file
  \<open>.env\<close> of the working directory. \<open>open\<close> raises \<open>FileNotFoundError\<close> on an
  absent file (the only exception the source catches) and can fail in other ways
  (a directory, no permission, undecodable bytes); a readable file is its lines.
\<close>

datatype file_state = Absent | Unreadable exn | Lines "pystr list"

record world =
  environ :: "pystr \<rightharpoonup> pystr"
  dotenv :: file_state

text \<open>\<open>str.isspace\<close> of one code point, and \<open>str.strip()\<close>.\<close>

definition isspace :: "nat \<Rightarrow> bool" where
  "isspace c =
     ((9 \<le> c \<and> c \<le> 13) \<or> (28 \<le> c \<and> c \<le> 32) \<or> c = 133 \<or> c = 160 \<or> c = 5760 \<or>
      (8192 \<le> c \<and> c \<le> 8202) \<or> c = 8232 \<or> c = 8233 \<or> c = 8239 \<or> c = 8287 \<or> c = 12288)"

definition strip :: "pystr \<Rightarrow> pystr" where
  "strip s = rev (dropWhile isspace (rev (dropWhile isspace s)))"

definition startswith :: "pystr \<Rightarrow> pystr \<Rightarrow> bool" where
  "startswith s p = (take (length p) s = p)"

text \<open>\<open>s.split(sep, 1)\<close> for a separator of one character, and \<open>parts[1]\<close>.\<close>

definition split_once :: "nat \<Rightarrow> pystr \<Rightarrow> pystr list" where
  "split_once sep s =
     (case dropWhile (\<lambda>c. c \<noteq> sep) s of
        [] \<Rightarrow> [s]
      | _ # rest \<Rightarrow> [takeWhile (\<lambda>c. c \<noteq> sep) s, rest])"

definition index1 :: "pystr list \<Rightarrow> exn + pystr" where
  "index1 parts =
     (case parts of
        _ # v # _ \<Rightarrow> Inr v
      | _ \<Rightarrow> Inl (IndexError (py ''list index out of range'')))"

text \<open>
  The loop over the lines of \<open>.env\<close> (lines 26-29 and 103-106 of tts\_server.py, the
  same code for the two variable names): the first line that starts with
  \<open>NAME=\<close> sets the key and ends the loop.
\<close>

fun scan_lines :: "pystr \<Rightarrow> pystr list \<Rightarrow> pystr \<Rightarrow> exn + pystr" where
  "scan_lines name [] key = Inr key"
| "scan_lines name (line # rest) key =
     (if startswith line (name @ py ''='') then
        (case index1 (split_once 61 line) of
           Inl e \<Rightarrow> Inl e
         | Inr v \<Rightarrow> Inr (strip v))
      else scan_lines name rest key)"

text \<open>
  Lines 20-31 and 97-108: \<open>os.environ.get(NAME, '')\<close>, then the file when the
  value is empty.
\<close>

definition load_key :: "pystr \<Rightarrow> world \<Rightarrow> exn + pystr" where
  "load_key name w =
     (let key = (case environ w name of None \<Rightarrow> [] | Some v \<Rightarrow> v) in
      if key = [] then
        (case dotenv w of
           Absent \<Rightarrow> Inr key
         | Unreadable e \<Rightarrow> Inl e
         | Lines ls \<Rightarrow> scan_lines name ls key)
      else Inr key)"

text \<open>
  The module-level state: \<open>ELEVENLABS_API_KEY\<close> is assigned while the module is
  loaded and never afterwards.
\<close>

record server =
  ELEVENLABS_API_KEY :: pystr

definition startup :: "world \<Rightarrow> exn + server" where
  "startup w =
     (case load_key (py ''VITE_ELEVENLABS_API_KEY'') w of
        Inl e \<Rightarrow> Inl e
      | Inr k \<Rightarrow> Inr \<lparr>ELEVENLABS_API_KEY = k\<rparr>)"

definition VOICES :: "(pystr \<times> pystr) list" where
  "VOICES =
     [(py ''rachel'', py ''21m00Tcm4TlvDq8ikWAM''),
      (py ''adam'', py ''pNInz6obpgDQGcFmaJgB''),
      (py ''josh'', py ''TxGEqnHWrfWFTfGW9XjX''),
      (py ''bella'', py ''EXAVITQu4vr4xnSDxMaL'')]"

text \<open>
  \<open>VOICES.get(voice, VOICES['rachel'])\<close>: the lookup hashes its key, which a list
  and a dict refuse; a key that is not a \<open>str\<close> equals none of the names.
\<close>

definition VOICES_get :: "pyval \<Rightarrow> exn + pystr" where
  "VOICES_get voice =
     (case map_of VOICES (py ''rachel'') of
        None \<Rightarrow> Inl (KeyError (quote (py ''rachel'')))
      | Some dflt \<Rightarrow>
          (case voice of
             PStr s \<Rightarrow> Inr (case map_of VOICES s of None \<Rightarrow> dflt | Some v \<Rightarrow> v)
           | PList xs \<Rightarrow> Inl (TypeError (py ''unhashable type: '' @ quote (py ''list'')))
           | PDict kvs \<Rightarrow> Inl (TypeError (py ''unhashable type: '' @ quote (py ''dict'')))
           | _ \<Rightarrow> Inr dflt))"

section \<open>Requests and responses\<close>

text \<open>
  The call \<open>requests.post(url, headers=..., json=..., timeout=...)\<close> and what comes
  back: a transport fault is an exception, otherwise a response with its status
  code, its raw content and the result of its \<open>json()\<close> method.
\<close>

record out_request =
  url :: pystr
  headers :: "(pystr \<times> pystr) list"
  payload :: pyval
  timeout :: nat

record up_response =
  status_code :: int
  content :: pybytes
  json :: "exn + pyval"

type_synonym upstream = "out_request \<Rightarrow> exn + up_response"

datatype body = JsonBody pyval | RawBody pybytes

record response =
  status :: nat
  mimetype :: pystr
  resp_headers :: "(pystr \<times> pystr) list"
  body :: body

text \<open>A handler returns a response or lets an exception out to the framework.\<close>

datatype outcome = Raised exn | Returned response

definition jsonify :: "pyval \<Rightarrow> nat \<Rightarrow> response" where
  "jsonify d code =
     \<lparr>status = code, mimetype = py ''application/json'', resp_headers = [], body = JsonBody d\<rparr>"

definition error_response :: "pystr \<Rightarrow> nat \<Rightarrow> response" where
  "error_response msg code = jsonify (PDict [(py ''error'', PStr msg)]) code"

section \<open>POST /tts\<close>

definition elevenlabs_request :: "pystr \<Rightarrow> pystr \<Rightarrow> pyval \<Rightarrow> out_request" where
  "elevenlabs_request api_key voice_id t =
     \<lparr>url = py ''https://api.elevenlabs.io/v1/text-to-speech/'' @ voice_id,
      headers =
        [(py ''Accept'', py ''audio/mpeg''),
         (py ''Content-Type'', py ''application/json''),
         (py ''xi-api-key'', api_key)],
      payload =
        PDict
          [(py ''text'', t),
           (py ''model_id'', PStr (py ''eleven_monolingual_v1'')),
           (py ''voice_settings'',
              PDict [(py ''stability'', PFloat 0.5), (py ''similarity_boost'', PFloat 0.75)])],
      timeout = 30\<rparr>"

text \<open>
  Lines 59-90, the \<open>try\<close> block: every exception raised in it becomes a 500
  response. The first component is the list of the upstream calls made. The
  \<open>requests\<close> library is taken to be installed, so that its import succeeds.
\<close>

definition elevenlabs_call ::
    "pystr \<Rightarrow> upstream \<Rightarrow> pystr \<Rightarrow> pyval \<Rightarrow> out_request list \<times> outcome" where
  "elevenlabs_call api_key post voice_id text =
     (case slice_to text 1000 of
        Inl e \<Rightarrow> ([], Returned (error_response (str_exn e) 500))
      | Inr t \<Rightarrow>
          (let req = elevenlabs_request api_key voice_id t in
           case post req of
             Inl e \<Rightarrow> ([req], Returned (error_response (str_exn e) 500))
           | Inr r \<Rightarrow>
               if status_code r \<noteq> 200 then
                 ([req], Returned (error_response
                    (py ''ElevenLabs error: '' @ str_int (status_code r)) 500))
               else
                 ([req], Returned
                    \<lparr>status = 200, mimetype = py ''audio/mpeg'',
                     resp_headers = [(py ''Content-Disposition'', py ''inline'')],
                     body = RawBody (content r)\<rparr>)))"

text \<open>
  Lines 44-90. \<open>request_json\<close> is what evaluating \<open>request.json\<close> gives: the
  framework's exception, or the parsed body.
\<close>

definition text_to_speech ::
    "server \<Rightarrow> upstream \<Rightarrow> exn + pyval \<Rightarrow> out_request list \<times> outcome" where
  "text_to_speech srv post request_json =
     (case request_json of
        Inl e \<Rightarrow> ([], Raised e)
      | Inr data \<Rightarrow>
     (case dict_get data (py ''text'') (PStr []) of
        Inl e \<Rightarrow> ([], Raised e)
      | Inr text \<Rightarrow>
     (case dict_get data (py ''voice'') (PStr (py ''rachel'')) of
        Inl e \<Rightarrow> ([], Raised e)
      | Inr voice \<Rightarrow>
          if \<not> truthy text then
            ([], Returned (error_response (py ''No text provided'') 400))
          else if ELEVENLABS_API_KEY srv = [] then
            ([], Returned (error_response (py ''ElevenLabs API key not configured'') 500))
          else
            (case VOICES_get voice of
               Inl e \<Rightarrow> ([], Raised e)
             | Inr voice_id \<Rightarrow> elevenlabs_call (ELEVENLABS_API_KEY srv) post voice_id text))))"

section \<open>POST /tts/sarvam\<close>

definition sarvam_request :: "pystr \<Rightarrow> pyval \<Rightarrow> pyval \<Rightarrow> out_request" where
  "sarvam_request api_key t language =
     \<lparr>url = py ''https://api.sarvam.ai/text-to-speech'',
      headers =
        [(py ''Content-Type'', py ''application/json''),
         (py ''API-Subscription-Key'', api_key)],
      payload =
        PDict
          [(py ''text'', t),
           (py ''target_language_code'', language),
           (py ''speaker'', PStr (py ''meera'')),
           (py ''pitch'', PInt 0),
           (py ''pace'', PFloat 1.0),
           (py ''loudness'', PFloat 1.0)],
      timeout = 30\<rparr>"

text \<open>
  Lines 144-150, inside the \<open>try\<close>: \<open>b64decode\<close> is the standard library's
  \<open>base64.b64decode\<close>, a parameter of the model.
\<close>

definition sarvam_audio :: "(pyval \<Rightarrow> exn + pybytes) \<Rightarrow> up_response \<Rightarrow> outcome" where
  "sarvam_audio b64decode r =
     (case json r of
        Inl e \<Rightarrow> Returned (error_response (str_exn e) 500)
      | Inr j \<Rightarrow>
     (case dict_get j (py ''audios'') (PList [PDict []]) of
        Inl e \<Rightarrow> Returned (error_response (str_exn e) 500)
      | Inr audios \<Rightarrow>
     (case index0 audios of
        Inl e \<Rightarrow> Returned (error_response (str_exn e) 500)
      | Inr audio_data \<Rightarrow>
          if truthy audio_data then
            (case b64decode audio_data of
               Inl e \<Rightarrow> Returned (error_response (str_exn e) 500)
             | Inr audio_bytes \<Rightarrow>
                 Returned \<lparr>status = 200, mimetype = py ''audio/wav'', resp_headers = [],
                           body = RawBody audio_bytes\<rparr>)
          else Returned (error_response (py ''No audio returned'') 500))))"

text \<open>Lines 120-153, the \<open>try\<close> block.\<close>

definition sarvam_call ::
    "pystr \<Rightarrow> (pyval \<Rightarrow> exn + pybytes) \<Rightarrow> upstream \<Rightarrow> pyval \<Rightarrow> pyval \<Rightarrow>
     out_request list \<times> outcome" where
  "sarvam_call api_key b64decode post text language =
     (case slice_to text 500 of
        Inl e \<Rightarrow> ([], Returned (error_response (str_exn e) 500))
      | Inr t \<Rightarrow>
          (let req = sarvam_request api_key t language in
           case post req of
             Inl e \<Rightarrow> ([req], Returned (error_response (str_exn e) 500))
           | Inr r \<Rightarrow>
               if status_code r \<noteq> 200 then
                 ([req], Returned (error_response
                    (py ''Sarvam error: '' @ str_int (status_code r)) 500))
               else ([req], sarvam_audio b64decode r)))"

text \<open>
  Lines 94-153. The key is read from the environment and the file as they are
  while the request is handled, before the body is looked at.
\<close>

definition sarvam_tts ::
    "world \<Rightarrow> (pyval \<Rightarrow> exn + pybytes) \<Rightarrow> upstream \<Rightarrow> exn + pyval \<Rightarrow>
     out_request list \<times> outcome" where
  "sarvam_tts w b64decode post request_json =
     (case load_key (py ''VITE_SARVAM_API_KEY'') w of
        Inl e \<Rightarrow> ([], Raised e)
      | Inr SARVAM_API_KEY \<Rightarrow>
          if SARVAM_API_KEY = [] then
            ([], Returned (error_response (py ''Sarvam API key not configured'') 500))
          else
     (case request_json of
        Inl e \<Rightarrow> ([], Raised e)
      | Inr data \<Rightarrow>
     (case dict_get data (py ''text'') (PStr []) of
        Inl e \<Rightarrow> ([], Raised e)
      | Inr text \<Rightarrow>
     (case dict_get data (py ''language'') (PStr (py ''en-IN'')) of
        Inl e \<Rightarrow> ([], Raised e)
      | Inr language \<Rightarrow>
          if \<not> truthy text then
            ([], Returned (error_response (py ''No text provided'') 400))
          else sarvam_call SARVAM_API_KEY b64decode post text language))))"

section \<open>GET /health\<close>

definition health :: "server \<Rightarrow> outcome" where
  "health srv =
     Returned (jsonify
       (PDict
          [(py ''status'', PStr (py ''ok'')),
           (py ''elevenlabs_configured'', PBool (ELEVENLABS_API_KEY srv \<noteq> []))])
       200)"

section \<open>Observations on requests and responses\<close>

text \<open>A field of the JSON payload of an upstream call, and a header of it.\<close>

definition payload_get :: "out_request \<Rightarrow> pystr \<Rightarrow> pyval option" where
  "payload_get r k = (case payload r of PDict kvs \<Rightarrow> map_of kvs k | _ \<Rightarrow> None)"

definition header_get :: "out_request \<Rightarrow> pystr \<Rightarrow> pystr option" where
  "header_get r k = map_of (headers r) k"

text \<open>
  The two shapes of a response of the synthesis endpoints: a JSON object with the
  one field \<open>error\<close> under status 400 or 500, and raw audio under status 200.
\<close>

definition error_message :: "response \<Rightarrow> pystr" where
  "error_message r =
     (case body r of
        JsonBody (PDict ((k, PStr m) # rest)) \<Rightarrow> m
      | _ \<Rightarrow> [])"

definition is_error_response :: "response \<Rightarrow> bool" where
  "is_error_response r =
     (r = error_response (error_message r) (status r) \<and> (status r = 400 \<or> status r = 500))"

definition is_audio_response :: "response \<Rightarrow> bool" where
  "is_audio_response r =
     (status r = 200 \<and> (mimetype r = py ''audio/mpeg'' \<or> mimetype r = py ''audio/wav'') \<and>
      (case body r of RawBody bs \<Rightarrow> True | JsonBody j \<Rightarrow> False))"

text \<open>The handler answered by itself, with one of the two shapes.\<close>

definition answered :: "outcome \<Rightarrow> bool" where
  "answered out =
     (case out of Raised e \<Rightarrow> False | Returned r \<Rightarrow> is_error_response r \<or> is_audio_response r)"

section \<open>Example environments\<close>

text \<open>An upstream that answers every call alike, and one that cannot be reached.\<close>

definition reply :: "int \<Rightarrow> pybytes \<Rightarrow> exn + pyval \<Rightarrow> upstream" where
  "reply code bs j = (\<lambda>req. Inr \<lparr>status_code = code, content = bs, json = j\<rparr>)"

definition refused :: upstream where
  "refused = (\<lambda>req. Inl (OtherError (py ''connection refused'')))"

text \<open>A stand-in for the decoder: it hands a string back as bytes and refuses the rest.\<close>

definition decode_stub :: "pyval \<Rightarrow> exn + pybytes" where
  "decode_stub x =
     (case x of
        PStr s \<Rightarrow> Inr s
      | _ \<Rightarrow> Inl (TypeError (py ''argument should be a bytes-like object or ASCII string'')))"

text \<open>No variable set and no file; and the secondary key set in the environment.\<close>

definition bare_world :: world where
  "bare_world = \<lparr>environ = Map.empty, dotenv = Absent\<rparr>"

definition sarvam_world :: world where
  "sarvam_world =
     \<lparr>environ = [py ''VITE_SARVAM_API_KEY'' \<mapsto> py ''sk-1''], dotenv = Absent\<rparr>"

text \<open>
  The primary key set in the environment; and the primary variable set to the empty
  string beside a file that holds the key.
\<close>

definition primary_world :: world where
  "primary_world =
     \<lparr>environ = [py ''VITE_ELEVENLABS_API_KEY'' \<mapsto> py ''k1''], dotenv = Absent\<rparr>"

definition empty_var_world :: world where
  "empty_var_world =
     \<lparr>environ = [py ''VITE_ELEVENLABS_API_KEY'' \<mapsto> []],
      dotenv = Lines [py ''# keys'' @ [10], py ''VITE_ELEVENLABS_API_KEY= abc '' @ [10]]\<rparr>"

section \<open>Basic facts\<close>

lemma py_inject [simp]: "py a = py b \<longleftrightarrow> a = b"
  by (simp add: py_def inj_map_eq_map inj_on_def)

lemma py_eq_Nil [simp]: "py s = [] \<longleftrightarrow> s = []"
  by (simp add: py_def)

lemma Nil_eq_py [simp]: "[] = py s \<longleftrightarrow> s = []"
  by (auto simp add: py_def)

lemma length_py [simp]: "length (py s) = length s"
  by (simp add: py_def)

lemma load_key_sarvam_world:
  "load_key (py ''VITE_SARVAM_API_KEY'') sarvam_world = Inr (py ''sk-1'')"
  by (simp add: load_key_def sarvam_world_def)

subsection \<open>The checks before the upstream call\<close>

lemma text_to_speech_falsy:
  "\<not> truthy (case map_of kvs (py ''text'') of None \<Rightarrow> PStr [] | Some v \<Rightarrow> v) \<Longrightarrow>
   text_to_speech srv post (Inr (PDict kvs)) =
     ([], Returned (error_response (py ''No text provided'') 400))"
  by (simp add: text_to_speech_def dict_get_def)

lemma sarvam_tts_unconfigured:
  "load_key (py ''VITE_SARVAM_API_KEY'') w = Inr [] \<Longrightarrow>
   sarvam_tts w b64 post rq =
     ([], Returned (error_response (py ''Sarvam API key not configured'') 500))"
  by (simp add: sarvam_tts_def)

lemma sarvam_tts_falsy:
  "load_key (py ''VITE_SARVAM_API_KEY'') w = Inr k \<Longrightarrow> k \<noteq> [] \<Longrightarrow>
   \<not> truthy (case map_of kvs (py ''text'') of None \<Rightarrow> PStr [] | Some v \<Rightarrow> v) \<Longrightarrow>
   sarvam_tts w b64 post (Inr (PDict kvs)) =
     ([], Returned (error_response (py ''No text provided'') 400))"
  by (simp add: sarvam_tts_def dict_get_def)

subsection \<open>The voice catalog\<close>

lemma VOICES_get_rachel: "VOICES_get (PStr (py ''rachel'')) = Inr (py ''21m00Tcm4TlvDq8ikWAM'')"
  by (simp add: VOICES_get_def VOICES_def)

subsection \<open>The upstream call\<close>

lemma text_to_speech_call:
  "dict_get data (py ''text'') (PStr []) = Inr text \<Longrightarrow> truthy text \<Longrightarrow>
   ELEVENLABS_API_KEY srv \<noteq> [] \<Longrightarrow>
   dict_get data (py ''voice'') (PStr (py ''rachel'')) = Inr voice \<Longrightarrow>
   VOICES_get voice = Inr voice_id \<Longrightarrow>
   text_to_speech srv post (Inr data) =
     elevenlabs_call (ELEVENLABS_API_KEY srv) post voice_id text"
  by (simp add: text_to_speech_def)

lemma sarvam_tts_call:
  "load_key (py ''VITE_SARVAM_API_KEY'') w = Inr k \<Longrightarrow> k \<noteq> [] \<Longrightarrow>
   dict_get data (py ''text'') (PStr []) = Inr text \<Longrightarrow> truthy text \<Longrightarrow>
   dict_get data (py ''language'') (PStr (py ''en-IN'')) = Inr language \<Longrightarrow>
   sarvam_tts w b64 post (Inr data) = sarvam_call k b64 post text language"
  by (simp add: sarvam_tts_def)

lemma fst_elevenlabs_call:
  "fst (elevenlabs_call key post vid text) =
     (case slice_to text 1000 of Inl e \<Rightarrow> [] | Inr t \<Rightarrow> [elevenlabs_request key vid t])"
  by (simp add: elevenlabs_call_def Let_def split: sum.splits)

lemma fst_sarvam_call:
  "fst (sarvam_call key b64 post text language) =
     (case slice_to text 500 of Inl e \<Rightarrow> [] | Inr t \<Rightarrow> [sarvam_request key t language])"
  by (simp add: sarvam_call_def Let_def split: sum.splits)

lemma fst_text_to_speech:
  "set (fst (text_to_speech srv post rq)) \<subseteq>
     (case rq of Inl e \<Rightarrow> {} | Inr data \<Rightarrow>
        (case dict_get data (py ''text'') (PStr []) of Inl e \<Rightarrow> {} | Inr text \<Rightarrow>
           {r. \<exists>vid. r \<in> set (fst (elevenlabs_call (ELEVENLABS_API_KEY srv) post vid text))}))"
  by (auto simp add: text_to_speech_def split: sum.splits)

lemma fst_sarvam_tts:
  "set (fst (sarvam_tts w b64 post rq)) \<subseteq>
     (case rq of Inl e \<Rightarrow> {} | Inr data \<Rightarrow>
        (case dict_get data (py ''text'') (PStr []) of Inl e \<Rightarrow> {} | Inr text \<Rightarrow>
           {r. \<exists>k language. load_key (py ''VITE_SARVAM_API_KEY'') w = Inr k \<and>
                r \<in> set (fst (sarvam_call k b64 post text language))}))"
  by (auto simp add: sarvam_tts_def split: sum.splits if_splits)

lemma payload_get_elevenlabs_text [simp]:
  "payload_get (elevenlabs_request key vid t) (py ''text'') = Some t"
  by (simp add: payload_get_def elevenlabs_request_def)

lemma payload_get_sarvam_text [simp]:
  "payload_get (sarvam_request key t language) (py ''text'') = Some t"
  by (simp add: payload_get_def sarvam_request_def)

lemma is_error_response_400 [simp]: "is_error_response (error_response m 400)"
  by (simp add: is_error_response_def error_response_def jsonify_def error_message_def)

lemma is_error_response_500 [simp]: "is_error_response (error_response m 500)"
  by (simp add: is_error_response_def error_response_def jsonify_def error_message_def)

lemma answered_elevenlabs_call: "answered (snd (elevenlabs_call key post vid text))"
  by (simp add: elevenlabs_call_def answered_def Let_def is_audio_response_def split: sum.splits)



lemma dict_get_PDict: "dict_get (PDict kvs) k d = Inr (case map_of kvs k of None \<Rightarrow> d | Some v \<Rightarrow> v)"
  by (simp add: dict_get_def)

lemma snd_elevenlabs_call:
  "slice_to text 1000 = Inr t \<Longrightarrow> post (elevenlabs_request key vid t) = Inr r \<Longrightarrow>
   snd (elevenlabs_call key post vid text) =
     Returned (if status_code r \<noteq> 200
               then error_response (py ''ElevenLabs error: '' @ str_int (status_code r)) 500
               else \<lparr>status = 200, mimetype = py ''audio/mpeg'',
                     resp_headers = [(py ''Content-Disposition'', py ''inline'')],
                     body = RawBody (content r)\<rparr>)"
  by (simp add: elevenlabs_call_def)

lemma snd_sarvam_call:
  "slice_to text 500 = Inr t \<Longrightarrow> post (sarvam_request key t language) = Inr r \<Longrightarrow>
   snd (sarvam_call key b64 post text language) =
     (if status_code r \<noteq> 200
      then Returned (error_response (py ''Sarvam error: '' @ str_int (status_code r)) 500)
      else sarvam_audio b64 r)"
  by (simp add: sarvam_call_def)

lemma header_get_elevenlabs [simp]:
  "header_get (elevenlabs_request key vid t) (py ''xi-api-key'') = Some key"
  by (simp add: header_get_def elevenlabs_request_def)

lemma header_get_sarvam [simp]:
  "header_get (sarvam_request key t language) (py ''API-Subscription-Key'') = Some key"
  by (simp add: header_get_def sarvam_request_def)

lemma no_audio_returned:
  "json r = Inr (PDict kvs) \<Longrightarrow>
   map_of kvs (py ''audios'') = None \<or>
     (\<exists>a rest. map_of kvs (py ''audios'') = Some (PList (a # rest)) \<and> \<not> truthy a) \<Longrightarrow>
   sarvam_audio b64 r = Returned (error_response (py ''No audio returned'') 500)"
  by (auto simp add: sarvam_audio_def dict_get_def index0_def)

subsection \<open>The outcome of a request with a JSON object as body\<close>

lemma text_to_speech_outcome:
  "dict_get data (py ''text'') (PStr []) = Inr tx \<Longrightarrow>
   dict_get data (py ''voice'') (PStr (py ''rachel'')) = Inr voice \<Longrightarrow>
   VOICES_get voice = Inr vid \<Longrightarrow>
   text_to_speech srv post (Inr data) =
     (if \<not> truthy tx then ([], Returned (error_response (py ''No text provided'') 400))
      else if ELEVENLABS_API_KEY srv = []
        then ([], Returned (error_response (py ''ElevenLabs API key not configured'') 500))
      else elevenlabs_call (ELEVENLABS_API_KEY srv) post vid tx)"
  by (simp add: text_to_speech_def)


lemma answered_error [simp]:
  "answered (Returned (error_response m 400))" "answered (Returned (error_response m 500))"
  by (simp_all add: answered_def)

lemma text_to_speech_failures:
  "dict_get (PDict kvs) (py ''text'') (PStr []) = Inr tx \<Longrightarrow>
   (dict_get (PDict kvs) (py ''voice'') (PStr (py ''rachel'')) = Inr voice \<and>
      VOICES_get voice = Inr vid \<longrightarrow>
      answered (snd (text_to_speech srv post (Inr (PDict kvs)))) \<and>
      (\<not> truthy tx \<longrightarrow>
         snd (text_to_speech srv post (Inr (PDict kvs))) =
           Returned (error_response (py ''No text provided'') 400)) \<and>
      (truthy tx \<and> ELEVENLABS_API_KEY srv = [] \<longrightarrow>
         snd (text_to_speech srv post (Inr (PDict kvs))) =
           Returned (error_response (py ''ElevenLabs API key not configured'') 500)) \<and>
      (truthy tx \<and> ELEVENLABS_API_KEY srv \<noteq> [] \<longrightarrow>
         (\<forall>e. slice_to tx 1000 = Inl e \<longrightarrow>
            snd (text_to_speech srv post (Inr (PDict kvs))) =
              Returned (error_response (str_exn e) 500)) \<and>
         (\<forall>t. slice_to tx 1000 = Inr t \<longrightarrow>
            (\<forall>e. post (elevenlabs_request (ELEVENLABS_API_KEY srv) vid t) = Inl e \<longrightarrow>
               snd (text_to_speech srv post (Inr (PDict kvs))) =
                 Returned (error_response (str_exn e) 500)) \<and>
            (\<forall>r. post (elevenlabs_request (ELEVENLABS_API_KEY srv) vid t) = Inr r \<longrightarrow>
               snd (text_to_speech srv post (Inr (PDict kvs))) =
                 Returned
                   (if status_code r \<noteq> 200
                    then error_response (py ''ElevenLabs error: '' @ str_int (status_code r)) 500
                    else \<lparr>status = 200, mimetype = py ''audio/mpeg'',
                          resp_headers = [(py ''Content-Disposition'', py ''inline'')],
                          body = RawBody (content r)\<rparr>)))))"
  using answered_elevenlabs_call [of "ELEVENLABS_API_KEY srv" post vid tx]
  by (clarsimp simp add: text_to_speech_outcome) (simp add: elevenlabs_call_def)



subsection \<open>Scanning the file\<close>

lemma dropWhile_upto_sep:
  "c \<notin> set xs \<Longrightarrow> dropWhile (\<lambda>x. x \<noteq> c) (xs @ c # ys) = c # ys"
  by (induction xs) auto

lemma split_after_prefix:
  assumes "61 \<notin> set name" and "startswith line (name @ py ''='')"
  shows "index1 (split_once 61 line) = Inr (drop (length name + 1) line)"
proof -
  have p: "take (length name + 1) line = name @ [61]"
    using assms(2) by (simp add: startswith_def py_def)
  define rest where r: "rest = drop (length name + 1) line"
  have "take (length name + 1) line @ rest = line"
    unfolding r by (rule append_take_drop_id)
  then have l: "line = name @ 61 # rest"
    unfolding p by simp
  have "dropWhile (\<lambda>c. c \<noteq> 61) line = 61 # rest"
    using assms(1) by (subst l) (rule dropWhile_upto_sep)
  then show ?thesis
    by (simp add: split_once_def index1_def r)
qed

lemma scan_lines_find:
  "61 \<notin> set name \<Longrightarrow>
   scan_lines name ls key =
     Inr (case find (\<lambda>l. startswith l (name @ py ''='')) ls of
            None \<Rightarrow> key
          | Some l \<Rightarrow> strip (drop (length name + 1) l))"
  by (induction ls) (simp_all add: split_after_prefix)

section \<open>Empty or missing text\<close>

text \<open>
  C1, as stated, fails on POST /tts/sarvam: with no secondary key configured the
  handler answers 500 before it reads the body, also for a body without
  \<open>text\<close>.
\<close>

theorem sarvam_unconfigured_empty_text:
  "sarvam_tts bare_world decode_stub refused (Inr (PDict [])) =
     ([], Returned (error_response (py ''Sarvam API key not configured'') 500)) \<and>
   snd (sarvam_tts bare_world decode_stub refused (Inr (PDict []))) \<noteq>
     Returned (error_response (py ''No text provided'') 400)"
  by (simp add: sarvam_tts_def load_key_def bare_world_def error_response_def jsonify_def)

text \<open>
  C1, amended: for a JSON object whose \<open>text\<close> is missing, empty or otherwise
  falsy, POST /tts answers 400 \<open>No text provided\<close> whatever the primary key is,
  and calls no upstream; POST /tts/sarvam answers the same 400 when the secondary
  key is configured, and 500 \<open>Sarvam API key not configured\<close> when it is not.
\<close>

theorem empty_text_rejected:
  "\<not> truthy (case map_of kvs (py ''text'') of None \<Rightarrow> PStr [] | Some v \<Rightarrow> v) \<Longrightarrow>
   text_to_speech srv post (Inr (PDict kvs)) =
     ([], Returned (error_response (py ''No text provided'') 400)) \<and>
   (\<forall>k. load_key (py ''VITE_SARVAM_API_KEY'') w = Inr k \<longrightarrow>
      sarvam_tts w b64 post (Inr (PDict kvs)) =
        ([], Returned (if k = [] then error_response (py ''Sarvam API key not configured'') 500
                       else error_response (py ''No text provided'') 400)))"
  by (simp add: text_to_speech_falsy sarvam_tts_falsy sarvam_tts_unconfigured)

theorem empty_text_rejected_witness:
  "text_to_speech \<lparr>ELEVENLABS_API_KEY = []\<rparr> refused (Inr (PDict [(py ''text'', PStr [])])) =
     ([], Returned (error_response (py ''No text provided'') 400)) \<and>
   sarvam_tts sarvam_world decode_stub refused (Inr (PDict [(py ''text'', PStr [])])) =
     ([], Returned (error_response (py ''No text provided'') 400))"
  using empty_text_rejected [where kvs = "[(py ''text'', PStr [])]"
      and srv = "\<lparr>ELEVENLABS_API_KEY = []\<rparr>" and post = refused
      and w = sarvam_world and ?b64.0 = decode_stub]
  by (simp add: load_key_sarvam_world)

section \<open>Truncation of the forwarded text\<close>

text \<open>
  C5: for a request whose \<open>text\<close> is a non-empty string, every upstream call
  carries the first 1000 characters of it on POST /tts and the first 500 on
  POST /tts/sarvam; with the credential configured (and, on /tts, a voice that
  resolves) exactly one call is made. A text within the limit goes out unchanged
  and a longer one is cut to exactly the limit.
\<close>

theorem forwarded_text_truncated:
  "dict_get data (py ''text'') (PStr []) = Inr (PStr s) \<Longrightarrow> s \<noteq> [] \<Longrightarrow>
   (\<forall>r \<in> set (fst (text_to_speech srv post (Inr data))).
      payload_get r (py ''text'') = Some (PStr (take 1000 s))) \<and>
   (\<forall>r \<in> set (fst (sarvam_tts w b64 post (Inr data))).
      payload_get r (py ''text'') = Some (PStr (take 500 s))) \<and>
   (\<forall>voice vid. ELEVENLABS_API_KEY srv \<noteq> [] \<and>
      dict_get data (py ''voice'') (PStr (py ''rachel'')) = Inr voice \<and>
      VOICES_get voice = Inr vid \<longrightarrow>
      fst (text_to_speech srv post (Inr data)) =
        [elevenlabs_request (ELEVENLABS_API_KEY srv) vid (PStr (take 1000 s))]) \<and>
   (\<forall>k language. load_key (py ''VITE_SARVAM_API_KEY'') w = Inr k \<and> k \<noteq> [] \<and>
      dict_get data (py ''language'') (PStr (py ''en-IN'')) = Inr language \<longrightarrow>
      fst (sarvam_tts w b64 post (Inr data)) =
        [sarvam_request k (PStr (take 500 s)) language]) \<and>
   (length s \<le> 1000 \<longrightarrow> take 1000 s = s) \<and>
   (1000 < length s \<longrightarrow> length (take 1000 s) = 1000) \<and>
   (length s \<le> 500 \<longrightarrow> take 500 s = s) \<and>
   (500 < length s \<longrightarrow> length (take 500 s) = 500)"
proof -
  assume t: "dict_get data (py ''text'') (PStr []) = Inr (PStr s)" and ne: "s \<noteq> []"
  have a: "\<forall>r \<in> set (fst (text_to_speech srv post (Inr data))).
      payload_get r (py ''text'') = Some (PStr (take 1000 s))"
    using fst_text_to_speech [of srv post "Inr data"] t
    by (auto simp add: fst_elevenlabs_call slice_to_def)
  have b: "\<forall>r \<in> set (fst (sarvam_tts w b64 post (Inr data))).
      payload_get r (py ''text'') = Some (PStr (take 500 s))"
    using fst_sarvam_tts [of w b64 post "Inr data"] t
    by (auto simp add: fst_sarvam_call slice_to_def)
  have c: "\<forall>voice vid. ELEVENLABS_API_KEY srv \<noteq> [] \<and>
      dict_get data (py ''voice'') (PStr (py ''rachel'')) = Inr voice \<and>
      VOICES_get voice = Inr vid \<longrightarrow>
      fst (text_to_speech srv post (Inr data)) =
        [elevenlabs_request (ELEVENLABS_API_KEY srv) vid (PStr (take 1000 s))]"
    using t ne by (simp add: text_to_speech_call fst_elevenlabs_call slice_to_def)
  have d: "\<forall>k language. load_key (py ''VITE_SARVAM_API_KEY'') w = Inr k \<and> k \<noteq> [] \<and>
      dict_get data (py ''language'') (PStr (py ''en-IN'')) = Inr language \<longrightarrow>
      fst (sarvam_tts w b64 post (Inr data)) =
        [sarvam_request k (PStr (take 500 s)) language]"
    using t ne by (simp add: sarvam_tts_call fst_sarvam_call slice_to_def)
  show ?thesis using a b c d by simp
qed

theorem forwarded_text_truncated_witness:
  "fst (text_to_speech \<lparr>ELEVENLABS_API_KEY = py ''k1''\<rparr> refused
          (Inr (PDict [(py ''text'', PStr (replicate 1001 97)), (py ''voice'', PStr (py ''adam''))]))) =
     [elevenlabs_request (py ''k1'') (py ''pNInz6obpgDQGcFmaJgB'') (PStr (replicate 1000 97))] \<and>
   fst (sarvam_tts sarvam_world decode_stub refused
          (Inr (PDict [(py ''text'', PStr (replicate 1001 97)), (py ''voice'', PStr (py ''adam''))]))) =
     [sarvam_request (py ''sk-1'') (PStr (replicate 500 97)) (PStr (py ''en-IN''))]"
  using forwarded_text_truncated [where
      data = "PDict [(py ''text'', PStr (replicate 1001 97)), (py ''voice'', PStr (py ''adam''))]"
      and s = "replicate 1001 97" and srv = "\<lparr>ELEVENLABS_API_KEY = py ''k1''\<rparr>"
      and post = refused and w = sarvam_world and ?b64.0 = decode_stub]
  by (simp add: dict_get_def VOICES_get_def VOICES_def load_key_sarvam_world)

section \<open>Failures at the request boundary\<close>




section \<open>The upstream status\<close>

text \<open>
  C6, as stated, fails: the handlers compare the status with 200, so the success
  status 201 is answered with the 500 error.
\<close>

theorem status_201_rejected:
  "snd (text_to_speech \<lparr>ELEVENLABS_API_KEY = py ''k1''\<rparr> (reply 201 [73, 68, 51] (Inl (OtherError [])))
          (Inr (PDict [(py ''text'', PStr (py ''hello''))]))) =
     Returned (error_response (py ''ElevenLabs error: 201'') 500)"
  by (simp add: text_to_speech_def dict_get_def VOICES_get_def VOICES_def elevenlabs_call_def
        slice_to_def reply_def str_int_def str_nat.simps py_def)

text \<open>
  C6, amended: once the upstream has answered a request with a non-empty string
  \<open>text\<close>, POST /tts returns 500 with the message \<open>ElevenLabs error: <status>\<close>
  when the upstream status is not 200 and the audio under status 200 when it is;
  POST /tts/sarvam returns 500 with \<open>Sarvam error: <status>\<close> when the status is
  not 200 and goes on to decode the audio payload when it is.
\<close>

theorem upstream_status_gate:
  "dict_get data (py ''text'') (PStr []) = Inr (PStr s) \<Longrightarrow> s \<noteq> [] \<Longrightarrow>
   (\<forall>voice vid r. ELEVENLABS_API_KEY srv \<noteq> [] \<and>
      dict_get data (py ''voice'') (PStr (py ''rachel'')) = Inr voice \<and>
      VOICES_get voice = Inr vid \<and>
      post (elevenlabs_request (ELEVENLABS_API_KEY srv) vid (PStr (take 1000 s))) = Inr r \<longrightarrow>
      snd (text_to_speech srv post (Inr data)) =
        Returned (if status_code r \<noteq> 200
                  then error_response (py ''ElevenLabs error: '' @ str_int (status_code r)) 500
                  else \<lparr>status = 200, mimetype = py ''audio/mpeg'',
                        resp_headers = [(py ''Content-Disposition'', py ''inline'')],
                        body = RawBody (content r)\<rparr>)) \<and>
   (\<forall>k language r. load_key (py ''VITE_SARVAM_API_KEY'') w = Inr k \<and> k \<noteq> [] \<and>
      dict_get data (py ''language'') (PStr (py ''en-IN'')) = Inr language \<and>
      post (sarvam_request k (PStr (take 500 s)) language) = Inr r \<longrightarrow>
      snd (sarvam_tts w b64 post (Inr data)) =
        (if status_code r \<noteq> 200
         then Returned (error_response (py ''Sarvam error: '' @ str_int (status_code r)) 500)
         else sarvam_audio b64 r))"
proof -
  assume t: "dict_get data (py ''text'') (PStr []) = Inr (PStr s)" and ne: "s \<noteq> []"
  have sl: "slice_to (PStr s) 1000 = Inr (PStr (take 1000 s))"
           "slice_to (PStr s) 500 = Inr (PStr (take 500 s))"
    by (simp_all add: slice_to_def)
  show ?thesis
    using t ne
    by (auto simp add: text_to_speech_call sarvam_tts_call
          snd_elevenlabs_call [OF sl(1)] snd_sarvam_call [OF sl(2)])
qed

theorem upstream_status_gate_witness:
  "snd (text_to_speech \<lparr>ELEVENLABS_API_KEY = py ''k1''\<rparr> (reply 200 [73, 68, 51] (Inl (OtherError [])))
          (Inr (PDict [(py ''text'', PStr (py ''hello'')), (py ''voice'', PStr (py ''adam''))]))) =
     Returned \<lparr>status = 200, mimetype = py ''audio/mpeg'',
               resp_headers = [(py ''Content-Disposition'', py ''inline'')],
               body = RawBody [73, 68, 51]\<rparr> \<and>
   snd (sarvam_tts sarvam_world decode_stub (reply 503 [] (Inl (OtherError [])))
          (Inr (PDict [(py ''text'', PStr (py ''hello'')), (py ''voice'', PStr (py ''adam''))]))) =
     Returned (error_response (py ''Sarvam error: 503'') 500)"
  using upstream_status_gate [where
      data = "PDict [(py ''text'', PStr (py ''hello'')), (py ''voice'', PStr (py ''adam''))]"
      and s = "py ''hello''" and srv = "\<lparr>ELEVENLABS_API_KEY = py ''k1''\<rparr>"
      and post = "reply 200 [73, 68, 51] (Inl (OtherError []))" and w = sarvam_world
      and ?b64.0 = decode_stub]
    upstream_status_gate [where
      data = "PDict [(py ''text'', PStr (py ''hello'')), (py ''voice'', PStr (py ''adam''))]"
      and s = "py ''hello''" and srv = "\<lparr>ELEVENLABS_API_KEY = py ''k1''\<rparr>"
      and post = "reply 503 [] (Inl (OtherError []))" and w = sarvam_world
      and ?b64.0 = decode_stub]
  by (simp add: dict_get_def VOICES_get_def VOICES_def load_key_sarvam_world reply_def
        str_int_def str_nat.simps) (simp add: py_def)

section \<open>The voice catalog lookup\<close>

text \<open>
  C7: on POST /tts the resolution of \<open>voice\<close> through the catalog is total on
  voice names. A missing \<open>voice\<close> and every name that is not in the catalog
  resolve to the catalog entry of \<open>rachel\<close>, a name of the catalog to its own
  entry; the lookup raises nothing, the handler raises nothing, and a request
  that reaches the lookup calls the upstream with the resolved identifier.
\<close>

theorem voice_resolution_total:
  "map_of kvs (py ''voice'') = None \<or> map_of kvs (py ''voice'') = Some (PStr name) \<Longrightarrow>
   vid = (if map_of kvs (py ''voice'') = None then py ''21m00Tcm4TlvDq8ikWAM''
          else (case map_of VOICES name of
                  None \<Rightarrow> py ''21m00Tcm4TlvDq8ikWAM''
                | Some i \<Rightarrow> i)) \<Longrightarrow>
   map_of VOICES (py ''rachel'') = Some (py ''21m00Tcm4TlvDq8ikWAM'') \<and>
   (\<exists>voice. dict_get (PDict kvs) (py ''voice'') (PStr (py ''rachel'')) = Inr voice \<and>
      VOICES_get voice = Inr vid) \<and>
   (\<forall>tx. dict_get (PDict kvs) (py ''text'') (PStr []) = Inr tx \<and> truthy tx \<and>
      ELEVENLABS_API_KEY srv \<noteq> [] \<longrightarrow>
      text_to_speech srv post (Inr (PDict kvs)) =
        elevenlabs_call (ELEVENLABS_API_KEY srv) post vid tx) \<and>
   answered (snd (text_to_speech srv post (Inr (PDict kvs))))"
proof -
  assume v: "map_of kvs (py ''voice'') = None \<or> map_of kvs (py ''voice'') = Some (PStr name)"
    and i: "vid = (if map_of kvs (py ''voice'') = None then py ''21m00Tcm4TlvDq8ikWAM''
          else (case map_of VOICES name of
                  None \<Rightarrow> py ''21m00Tcm4TlvDq8ikWAM''
                | Some i \<Rightarrow> i))"
  define voice where
    "voice = (case map_of kvs (py ''voice'') of None \<Rightarrow> PStr (py ''rachel'') | Some x \<Rightarrow> x)"
  have g: "dict_get (PDict kvs) (py ''voice'') (PStr (py ''rachel'')) = Inr voice"
    by (simp add: dict_get_def voice_def)
  have r: "VOICES_get voice = Inr vid"
    using v by (auto simp add: i voice_def VOICES_get_def VOICES_def split: option.splits)
  have d: "map_of VOICES (py ''rachel'') = Some (py ''21m00Tcm4TlvDq8ikWAM'')"
    by (simp add: VOICES_def)
  have c: "text_to_speech srv post (Inr (PDict kvs)) =
      elevenlabs_call (ELEVENLABS_API_KEY srv) post vid tx"
    if "dict_get (PDict kvs) (py ''text'') (PStr []) = Inr tx" "truthy tx"
       "ELEVENLABS_API_KEY srv \<noteq> []" for tx
    using that g r by (simp add: text_to_speech_call)
  have a: "answered (snd (text_to_speech srv post (Inr (PDict kvs))))"
    using text_to_speech_failures [of kvs _ voice vid srv post] g r
    by (simp add: dict_get_PDict)
  show ?thesis using g r d c a by blast
qed

theorem voice_resolution_total_witness:
  "fst (text_to_speech \<lparr>ELEVENLABS_API_KEY = py ''k1''\<rparr> refused
     (Inr (PDict [(py ''text'', PStr (py ''hi'')), (py ''voice'', PStr (py ''zelda''))]))) =
     [elevenlabs_request (py ''k1'') (py ''21m00Tcm4TlvDq8ikWAM'') (PStr (py ''hi''))] \<and>
   fst (text_to_speech \<lparr>ELEVENLABS_API_KEY = py ''k1''\<rparr> refused
     (Inr (PDict [(py ''text'', PStr (py ''hi''))]))) =
     [elevenlabs_request (py ''k1'') (py ''21m00Tcm4TlvDq8ikWAM'') (PStr (py ''hi''))] \<and>
   fst (text_to_speech \<lparr>ELEVENLABS_API_KEY = py ''k1''\<rparr> refused
     (Inr (PDict [(py ''text'', PStr (py ''hi'')), (py ''voice'', PStr (py ''adam''))]))) =
     [elevenlabs_request (py ''k1'') (py ''pNInz6obpgDQGcFmaJgB'') (PStr (py ''hi''))]"
  using voice_resolution_total [where
      kvs = "[(py ''text'', PStr (py ''hi'')), (py ''voice'', PStr (py ''zelda''))]"
      and name = "py ''zelda''" and vid = "py ''21m00Tcm4TlvDq8ikWAM''"
      and srv = "\<lparr>ELEVENLABS_API_KEY = py ''k1''\<rparr>" and post = refused]
    voice_resolution_total [where
      kvs = "[(py ''text'', PStr (py ''hi''))]"
      and name = "py ''zelda''" and vid = "py ''21m00Tcm4TlvDq8ikWAM''"
      and srv = "\<lparr>ELEVENLABS_API_KEY = py ''k1''\<rparr>" and post = refused]
    voice_resolution_total [where
      kvs = "[(py ''text'', PStr (py ''hi'')), (py ''voice'', PStr (py ''adam''))]"
      and name = "py ''adam''" and vid = "py ''pNInz6obpgDQGcFmaJgB''"
      and srv = "\<lparr>ELEVENLABS_API_KEY = py ''k1''\<rparr>" and post = refused]
  by (simp add: dict_get_def VOICES_def fst_elevenlabs_call slice_to_def)

section \<open>A text that is no string\<close>

text \<open>
  C10, as stated, fails on its own example of a non-empty list: a list is sliced
  like a string, so nothing is raised, the list goes upstream and the answer is
  the upstream's (here the audio under status 200).
\<close>

theorem list_text_forwarded:
  "text_to_speech \<lparr>ELEVENLABS_API_KEY = py ''k1''\<rparr> (reply 200 [73, 68, 51] (Inl (OtherError [])))
     (Inr (PDict [(py ''text'', PList [PInt 1])])) =
   ([elevenlabs_request (py ''k1'') (py ''21m00Tcm4TlvDq8ikWAM'') (PList [PInt 1])],
    Returned \<lparr>status = 200, mimetype = py ''audio/mpeg'',
              resp_headers = [(py ''Content-Disposition'', py ''inline'')],
              body = RawBody [73, 68, 51]\<rparr>)"
  by (simp add: text_to_speech_def dict_get_def VOICES_get_def VOICES_def elevenlabs_call_def
        slice_to_def reply_def)

text \<open>
  C10, amended: on POST /tts a truthy \<open>text\<close> that is neither a string nor a
  list (a number, \<open>true\<close>, a non-empty object) passes the empty-text check,
  is never answered with 400 and never reaches the upstream: with the key
  configured the slice raises inside the \<open>try\<close> block and the answer is 500
  with that exception's message, without the key it is the 500 of the missing key.
  A non-empty list is sliced to its first 1000 items and forwarded.
\<close>

theorem non_string_text:
  "dict_get data (py ''text'') (PStr []) = Inr tx \<Longrightarrow> truthy tx \<Longrightarrow>
   dict_get data (py ''voice'') (PStr (py ''rachel'')) = Inr voice \<Longrightarrow>
   VOICES_get voice = Inr vid \<Longrightarrow>
   ((case tx of PStr s \<Rightarrow> False | PList xs \<Rightarrow> False | _ \<Rightarrow> True) \<longrightarrow>
      text_to_speech srv post (Inr data) =
        ([], Returned (error_response
           (if ELEVENLABS_API_KEY srv = [] then py ''ElevenLabs API key not configured''
            else (case slice_to tx 1000 of Inl e \<Rightarrow> str_exn e | Inr t \<Rightarrow> []))
           500)) \<and>
      (\<exists>e. slice_to tx 1000 = Inl e)) \<and>
   (\<forall>xs. tx = PList xs \<and> ELEVENLABS_API_KEY srv \<noteq> [] \<longrightarrow>
      fst (text_to_speech srv post (Inr data)) =
        [elevenlabs_request (ELEVENLABS_API_KEY srv) vid (PList (take 1000 xs))])"
proof -
  assume t: "dict_get data (py ''text'') (PStr []) = Inr tx" "truthy tx"
    and v: "dict_get data (py ''voice'') (PStr (py ''rachel'')) = Inr voice"
           "VOICES_get voice = Inr vid"
  have a: "text_to_speech srv post (Inr data) =
      (if ELEVENLABS_API_KEY srv = []
       then ([], Returned (error_response (py ''ElevenLabs API key not configured'') 500))
       else elevenlabs_call (ELEVENLABS_API_KEY srv) post vid tx)"
    using t v by (simp add: text_to_speech_def)
  show ?thesis
    by (cases tx)
       (simp_all add: a elevenlabs_call_def slice_to_def Let_def split: sum.splits)
qed

theorem non_string_text_witness:
  "text_to_speech \<lparr>ELEVENLABS_API_KEY = py ''k1''\<rparr> (reply 200 [73, 68, 51] (Inl (OtherError [])))
     (Inr (PDict [(py ''text'', PInt 7)])) =
   ([], Returned (error_response (quote (py ''int'') @ py '' object is not subscriptable'') 500))"
  using non_string_text [where data = "PDict [(py ''text'', PInt 7)]" and tx = "PInt 7"
      and voice = "PStr (py ''rachel'')" and vid = "py ''21m00Tcm4TlvDq8ikWAM''"
      and srv = "\<lparr>ELEVENLABS_API_KEY = py ''k1''\<rparr>"
      and post = "reply 200 [73, 68, 51] (Inl (OtherError []))"]
  by (simp add: dict_get_def VOICES_get_rachel slice_to_def not_subscriptable_def)

section \<open>The audio payload of the secondary provider\<close>

text \<open>
  C3 at the input where the code departs from it: the upstream answers 200 with
  \<open>{"audios": []}\<close>. Indexing the empty list raises \<open>IndexError\<close>, which the
  \<open>except\<close> clause turns into 500 with the message
  \<open>list index out of range\<close>, not \<open>No audio returned\<close>.
\<close>

theorem empty_audios_list:
  "sarvam_tts sarvam_world decode_stub
     (reply 200 [] (Inr (PDict [(py ''audios'', PList [])])))
     (Inr (PDict [(py ''text'', PStr (py ''namaste''))])) =
   ([sarvam_request (py ''sk-1'') (PStr (py ''namaste'')) (PStr (py ''en-IN''))],
    Returned (error_response (py ''list index out of range'') 500))"
  by (simp add: sarvam_tts_def load_key_sarvam_world dict_get_def sarvam_call_def slice_to_def
        reply_def sarvam_audio_def index0_def)

section \<open>The health check\<close>

text \<open>
  C9: GET /health never raises and returns status 200 with the JSON body
  \<open>{status: ok, elevenlabs_configured: b}\<close>, where \<open>b\<close> is true exactly when
  the primary key is a non-empty string.
\<close>

theorem health_ok:
  "health srv =
     Returned \<lparr>status = 200, mimetype = py ''application/json'', resp_headers = [],
               body = JsonBody (PDict
                 [(py ''status'', PStr (py ''ok'')),
                  (py ''elevenlabs_configured'', PBool (ELEVENLABS_API_KEY srv \<noteq> []))])\<rparr>"
  by (simp add: health_def jsonify_def)

section \<open>When the credentials are read\<close>

text \<open>
  C2, as stated, fails for the secondary credential: \<open>sarvam_tts\<close> reads the
  environment and the file on every request. A process started in a world without
  the key resolves the empty string; a request handled after the variable has
  been set is forwarded with the new key.
\<close>

theorem sarvam_key_read_per_request:
  "load_key (py ''VITE_SARVAM_API_KEY'') bare_world = Inr [] \<and>
   map (\<lambda>r. header_get r (py ''API-Subscription-Key''))
     (fst (sarvam_tts sarvam_world decode_stub refused
             (Inr (PDict [(py ''text'', PStr (py ''hi''))])))) = [Some (py ''sk-1'')]"
  by (simp add: sarvam_tts_def load_key_sarvam_world dict_get_def fst_sarvam_call slice_to_def)
     (simp add: load_key_def bare_world_def)

text \<open>
  C2, amended: the primary credential is resolved once, at startup, and every
  upstream call of POST /tts and every answer of GET /health uses that value; the
  secondary credential is resolved on every request to POST /tts/sarvam, from the
  environment and the file as they are at that moment, and the upstream call
  carries the value resolved then.
\<close>

theorem credential_sources:
  "startup w0 = Inr srv \<Longrightarrow>
   load_key (py ''VITE_ELEVENLABS_API_KEY'') w0 = Inr (ELEVENLABS_API_KEY srv) \<and>
   (\<forall>r \<in> set (fst (text_to_speech srv post rq)).
      header_get r (py ''xi-api-key'') = Some (ELEVENLABS_API_KEY srv)) \<and>
   health srv = Returned (jsonify (PDict
      [(py ''status'', PStr (py ''ok'')),
       (py ''elevenlabs_configured'', PBool (ELEVENLABS_API_KEY srv \<noteq> []))]) 200) \<and>
   (\<forall>r \<in> set (fst (sarvam_tts w b64 post rq)).
      \<exists>k. load_key (py ''VITE_SARVAM_API_KEY'') w = Inr k \<and>
          header_get r (py ''API-Subscription-Key'') = Some k)"
proof -
  assume s: "startup w0 = Inr srv"
  have a: "load_key (py ''VITE_ELEVENLABS_API_KEY'') w0 = Inr (ELEVENLABS_API_KEY srv)"
    using s by (auto simp add: startup_def split: sum.splits)
  have b: "\<forall>r \<in> set (fst (text_to_speech srv post rq)).
      header_get r (py ''xi-api-key'') = Some (ELEVENLABS_API_KEY srv)"
    using fst_text_to_speech [of srv post rq]
    by (auto simp add: fst_elevenlabs_call split: sum.splits)
  have c: "\<forall>r \<in> set (fst (sarvam_tts w b64 post rq)).
      \<exists>k. load_key (py ''VITE_SARVAM_API_KEY'') w = Inr k \<and>
          header_get r (py ''API-Subscription-Key'') = Some k"
    using fst_sarvam_tts [of w b64 post rq]
    by (auto simp add: fst_sarvam_call split: sum.splits)
  show ?thesis using a b c by (simp add: health_def)
qed

theorem credential_sources_witness:
  "map (\<lambda>r. header_get r (py ''xi-api-key''))
     (fst (text_to_speech \<lparr>ELEVENLABS_API_KEY = py ''k1''\<rparr> refused
             (Inr (PDict [(py ''text'', PStr (py ''hi''))])))) = [Some (py ''k1'')] \<and>
   startup primary_world = Inr \<lparr>ELEVENLABS_API_KEY = py ''k1''\<rparr> \<and>
   load_key (py ''VITE_ELEVENLABS_API_KEY'') primary_world = Inr (py ''k1'')"
  using credential_sources [where ?w0.0 = primary_world
      and srv = "\<lparr>ELEVENLABS_API_KEY = py ''k1''\<rparr>" and post = refused
      and rq = "Inr (PDict [(py ''text'', PStr (py ''hi''))])"
      and w = sarvam_world and ?b64.0 = decode_stub]
  by (simp add: startup_def load_key_def primary_world_def text_to_speech_def dict_get_def
        VOICES_get_def VOICES_def fst_elevenlabs_call slice_to_def)

section \<open>How a credential is resolved\<close>

text \<open>
  C8, as stated, fails: a variable that is set to the empty string counts as
  absent, and the value of the file is used.
\<close>

theorem empty_variable_reads_file:
  "environ empty_var_world (py ''VITE_ELEVENLABS_API_KEY'') = Some [] \<and>
   startup empty_var_world = Inr \<lparr>ELEVENLABS_API_KEY = py ''abc''\<rparr>"
  by (simp add: startup_def load_key_def empty_var_world_def startswith_def split_once_def
        index1_def strip_def isspace_def py_def)

text \<open>
  C8, amended: a credential is the value of its environment variable when that
  is set and not empty, and the file is not read then. When the variable is unset
  or empty: an absent file leaves the credential empty (unconfigured); a readable
  file gives the rest of its first line that starts with \<open>NAME=\<close>, stripped of
  surrounding whitespace, or the empty string when no line starts so; any other
  failure to read the file is raised.
\<close>

theorem key_resolution:
  "name = py ''VITE_ELEVENLABS_API_KEY'' \<or> name = py ''VITE_SARVAM_API_KEY'' \<Longrightarrow>
   (\<forall>v. environ w name = Some v \<and> v \<noteq> [] \<longrightarrow> load_key name w = Inr v) \<and>
   (environ w name = None \<or> environ w name = Some [] \<longrightarrow>
      (dotenv w = Absent \<longrightarrow> load_key name w = Inr []) \<and>
      (\<forall>ls. dotenv w = Lines ls \<longrightarrow>
         load_key name w =
           Inr (case find (\<lambda>l. startswith l (name @ py ''='')) ls of
                  None \<Rightarrow> []
                | Some l \<Rightarrow> strip (drop (length name + 1) l))) \<and>
      (\<forall>e. dotenv w = Unreadable e \<longrightarrow> load_key name w = Inl e))"
proof -
  assume n: "name = py ''VITE_ELEVENLABS_API_KEY'' \<or> name = py ''VITE_SARVAM_API_KEY''"
  then have e: "61 \<notin> set name"
    by (auto simp add: py_def)
  show ?thesis
    by (auto simp add: load_key_def scan_lines_find [OF e])
qed

theorem key_resolution_witness:
  "load_key (py ''VITE_SARVAM_API_KEY'') sarvam_world = Inr (py ''sk-1'') \<and>
   load_key (py ''VITE_ELEVENLABS_API_KEY'') sarvam_world = Inr [] \<and>
   load_key (py ''VITE_ELEVENLABS_API_KEY'') empty_var_world = Inr (py ''abc'')"
  using key_resolution [where name = "py ''VITE_SARVAM_API_KEY''" and w = sarvam_world]
    key_resolution [where name = "py ''VITE_ELEVENLABS_API_KEY''" and w = sarvam_world]
    key_resolution [where name = "py ''VITE_ELEVENLABS_API_KEY''" and w = empty_var_world]
  by (simp add: sarvam_world_def empty_var_world_def startswith_def strip_def isspace_def py_def)

end
